theory Spec2Isabelle
  imports Complex_Main
begin

section \<open>Values, exceptions and observable effects\<close>

text \<open>
  The bridge is the Python class \<open>Subscriber\<close> of \<open>local/skill_subscriber.py\<close>.
  Its methods talk to collaborators (the SNS client, the UPnP gateway, the operating
  system, the skill handlers, the clock).  Every method is embedded as a function from
  the answers of the collaborators and the instance to a triple: how the call ended,
  the instance afterwards, and the list of effects the call performed, in order.

  A decoded JSON document, as \<open>json.loads\<close> returns it.  An object is the list of the
  items of the Python dict (its keys are distinct).
\<close>

datatype json =
    JNull
  | JBool bool
  | JInt int
  | JFloat real
  | JStr string
  | JArr "json list"
  | JObj "(string \<times> json) list"

text \<open>
  The exceptions of the source.  \<open>SystemExit\<close> is what \<open>sys.exit\<close> raises;
  \<open>External\<close> is any exception raised by a collaborator.
\<close>

datatype exn =
    KeyError
  | TypeError
  | ValueError
  | AttributeError
  | RuntimeError
  | JSONDecodeError
  | SystemExit int
  | External string

text \<open>
  How a call ends: it returns, it raises, or the process image has been replaced by
  \<open>os.execl\<close> (which does not return).
\<close>

datatype outcome = Returned | Raised exn | ProcessReplaced

text \<open>
  The effects.  A log event carries the message template of the source, without its
  formatted arguments.
\<close>

datatype event =
    LogDebug string
  | LogInfo string
  | LogError string
  | LogException string
  | SnsClientCreate
  | ListSubscriptionsByTopic string
  | Publish string json
  | ExecL
  | Sleep nat
  | SnsConfirmSubscription "string option" json
  | ThreadStart
  | DeletePortMapping nat
  | SnsUnsubscribe string
  | ServerShutdown
  | ThreadJoin nat
  | SendResponse nat
  | SendHeader string string
  | EndHeaders
  | ReadBody
  | LogInfoJson json
  | SkillsGet json
  | HandleCommand json json json json

text \<open>
  Points in time (\<open>datetime.now()\<close>) are counted in microseconds, the resolution of
  \<open>datetime\<close>; \<open>total_seconds() > n\<close> is then \<open>d > n * 1000000\<close>.
\<close>

type_synonym time = int

definition total_seconds_gt :: "int \<Rightarrow> int \<Rightarrow> bool" where
  "total_seconds_gt d n = (d > n * 1000000)"

text \<open>
  A skill is known by what \<open>handle_command(room, command, data)\<close> does: it returns
  (\<open>None\<close>) or raises.
\<close>

type_synonym skill = "json \<Rightarrow> json \<Rightarrow> json \<Rightarrow> exn option"

datatype thread_state = NotStarted | Started

record subscriber =
  last_ping_sent :: "time option"
  last_ping_received :: "time option"
  ping_thread :: thread_state
  stopped :: bool
  manual_port_forward :: bool
  skills :: "string \<rightharpoonup> skill"
  topic_arn :: string
  server_port :: nat
  endpoint_url :: string

section \<open>Python primitives\<close>

text \<open>\<open>obj[key]\<close> for a string key: only a dict can be subscripted by a string.\<close>

fun getitem :: "json \<Rightarrow> string \<Rightarrow> exn + json" where
  "getitem (JObj kvs) k =
     (case map_of kvs k of None \<Rightarrow> Inl KeyError | Some v \<Rightarrow> Inr v)"
| "getitem _ k = Inl TypeError"

text \<open>
  \<open>self.skills.get(key)\<close> on a dict keyed by strings: a list or a dict is unhashable,
  any other key that is not a registered name gives \<open>None\<close>.
\<close>

fun skills_get :: "(string \<rightharpoonup> skill) \<Rightarrow> json \<Rightarrow> exn + skill option" where
  "skills_get reg (JStr name) = Inr (reg name)"
| "skills_get reg (JArr xs) = Inl TypeError"
| "skills_get reg (JObj kvs) = Inl TypeError"
| "skills_get reg _ = Inr None"

text \<open>Truth value of a JSON value in a condition.\<close>

fun truthy :: "json \<Rightarrow> bool" where
  "truthy JNull = False"
| "truthy (JBool b) = b"
| "truthy (JInt i) = (i \<noteq> 0)"
| "truthy (JFloat x) = (x \<noteq> 0)"
| "truthy (JStr s) = (s \<noteq> [])"
| "truthy (JArr xs) = (xs \<noteq> [])"
| "truthy (JObj kvs) = (kvs \<noteq> [])"

fun is_skills_get :: "event \<Rightarrow> bool" where
  "is_skills_get (SkillsGet k) = True"
| "is_skills_get _ = False"

fun is_handle_command :: "event \<Rightarrow> bool" where
  "is_handle_command (HandleCommand h r c d) = True"
| "is_handle_command _ = False"

section \<open>Notification Dispatcher\<close>

text \<open>
  The body of the \<open>try\<close> of \<open>dispatch_notification\<close>: \<open>Inl e\<close> when it raises \<open>e\<close>.
  The attribute \<open>skill.handle_command\<close> is read before the arguments are evaluated,
  so a missing skill raises before \<open>notification['room']\<close> is looked up.
\<close>

definition dispatch_body ::
  "time \<Rightarrow> json \<Rightarrow> subscriber \<Rightarrow> (exn + unit) \<times> subscriber \<times> event list" where
  "dispatch_body now notification s =
     (case getitem notification ''command'' of
        Inl e \<Rightarrow> (Inl e, s, [])
      | Inr c \<Rightarrow>
          if c = JStr ''ping'' then
            (Inr (), s\<lparr>last_ping_received := Some now\<rparr>, [LogInfo ''Received ping.''])
          else
            (case getitem notification ''handler_name'' of
               Inl e \<Rightarrow> (Inl e, s, [])
             | Inr h \<Rightarrow>
                 (case skills_get (skills s) h of
                    Inl e \<Rightarrow> (Inl e, s, [SkillsGet h])
                  | Inr None \<Rightarrow> (Inl AttributeError, s, [SkillsGet h])
                  | Inr (Some skill) \<Rightarrow>
                      (case getitem notification ''room'' of
                         Inl e \<Rightarrow> (Inl e, s, [SkillsGet h])
                       | Inr room \<Rightarrow>
                           (case getitem notification ''command'' of
                              Inl e \<Rightarrow> (Inl e, s, [SkillsGet h])
                            | Inr cmd \<Rightarrow>
                                (case getitem notification ''data'' of
                                   Inl e \<Rightarrow> (Inl e, s, [SkillsGet h])
                                 | Inr d \<Rightarrow>
                                     (case skill room cmd d of
                                        Some e \<Rightarrow>
                                          (Inl e, s, [SkillsGet h, HandleCommand h room cmd d])
                                      | None \<Rightarrow>
                                          (Inr (), s,
                                           [SkillsGet h, HandleCommand h room cmd d]))))))))"

text \<open>The bare \<open>except:\<close> catches whatever the body raises and logs it.\<close>

definition dispatch_notification ::
  "time \<Rightarrow> json \<Rightarrow> subscriber \<Rightarrow> outcome \<times> subscriber \<times> event list" where
  "dispatch_notification now notification s =
     (case dispatch_body now notification s of
        (Inl e, s', tr) \<Rightarrow>
          (Returned, s', tr @ [LogException ''Unexpected error handling message''])
      | (Inr u, s', tr) \<Rightarrow> (Returned, s', tr))"

section \<open>Heartbeat Supervisor\<close>

definition PING_SECS :: int where
  "PING_SECS = 600"

text \<open>An entry of \<open>response['Subscriptions']\<close>.\<close>

record subscription =
  SubscriptionArn :: string
  Endpoint :: string
  TopicArn :: string

text \<open>
  What the collaborators answer during one pass of the loop of \<open>ping\<close>: the three
  readings of the clock, and for each call whether it raises.
\<close>

record ping_env =
  p_now_gate :: time
  p_client_result :: "exn option"
  p_list_result :: "exn + subscription list"
  p_now_check :: time
  p_execl_result :: "exn option"
  p_publish_result :: "exn option"
  p_now_sent :: time

text \<open>
  \<open>restart\<close>: \<open>os.execl\<close> replaces the process image and does not return, or raises.
\<close>

definition restart :: "exn option \<Rightarrow> outcome \<times> event list" where
  "restart execl_result =
     (case execl_result of
        None \<Rightarrow> (ProcessReplaced, [ExecL])
      | Some e \<Rightarrow> (Raised e, [ExecL]))"

text \<open>The last three statements of the cycle: log, publish, record \<open>last_ping_sent\<close>.\<close>

definition send_ping :: "ping_env \<Rightarrow> subscriber \<Rightarrow> outcome \<times> subscriber \<times> event list" where
  "send_ping env s =
     (case p_publish_result env of
        Some e \<Rightarrow>
          (Raised e, s,
           [LogInfo ''Sending ping...'',
            Publish (topic_arn s) (JObj [(''command'', JStr ''ping'')])])
      | None \<Rightarrow>
          (Returned, s\<lparr>last_ping_sent := Some (p_now_sent env)\<rparr>,
           [LogInfo ''Sending ping...'',
            Publish (topic_arn s) (JObj [(''command'', JStr ''ping'')])]))"

text \<open>
  The test that guards the restart:
  \<open>self.last_ping_received and (now - self.last_ping_received).total_seconds() > PING_SECS * 2\<close>.
\<close>

definition ack_overdue :: "ping_env \<Rightarrow> subscriber \<Rightarrow> bool" where
  "ack_overdue env s =
     (case last_ping_received s of
        None \<Rightarrow> False
      | Some r \<Rightarrow> total_seconds_gt (p_now_check env - r) (PING_SECS * 2))"

text \<open>The cycle: the branch of the loop body taken when a ping is due.\<close>

definition ping_cycle :: "ping_env \<Rightarrow> subscriber \<Rightarrow> outcome \<times> subscriber \<times> event list" where
  "ping_cycle env s =
     (case p_client_result env of
        Some e \<Rightarrow> (Raised e, s, [SnsClientCreate])
      | None \<Rightarrow>
          (case p_list_result env of
             Inl e \<Rightarrow> (Raised e, s, [SnsClientCreate, ListSubscriptionsByTopic (topic_arn s)])
           | Inr subscriptions \<Rightarrow>
               (let tr = [SnsClientCreate, ListSubscriptionsByTopic (topic_arn s),
                          (if length subscriptions = 0
                           then LogError ''No clients are subscribed.''
                           else LogInfo ''%i clients are subscribed.'')]
                in if ack_overdue env s then
                     (case restart (p_execl_result env) of
                        (Returned, tr') \<Rightarrow>
                          (case send_ping env s of
                             (out, s', tr'') \<Rightarrow>
                               (out, s',
                                tr @ [LogError ''No ping received for {PING_SECS * 2} seconds. Restarting process...'']
                                  @ tr' @ tr''))
                      | (out, tr') \<Rightarrow>
                          (out, s,
                           tr @ [LogError ''No ping received for {PING_SECS * 2} seconds. Restarting process...'']
                             @ tr'))
                   else
                     (case send_ping env s of
                        (out, s', tr'') \<Rightarrow> (out, s', tr @ tr'')))))"

text \<open>
  The test that opens the cycle:
  \<open>not self.last_ping_sent or (now - self.last_ping_sent).total_seconds() > PING_SECS\<close>.
  \<open>last_ping_sent\<close> is \<open>False\<close> (here \<open>None\<close>) until the first ping.
\<close>

definition ping_due :: "ping_env \<Rightarrow> subscriber \<Rightarrow> bool" where
  "ping_due env s =
     (case last_ping_sent s of
        None \<Rightarrow> True
      | Some t \<Rightarrow> total_seconds_gt (p_now_gate env - t) PING_SECS)"

text \<open>One pass of the body of \<open>while not self.stopped\<close>.\<close>

definition ping_iteration :: "ping_env \<Rightarrow> subscriber \<Rightarrow> outcome \<times> subscriber \<times> event list" where
  "ping_iteration env s =
     (if ping_due env s then ping_cycle env s else (Returned, s, [Sleep 1]))"

text \<open>
  The loop of \<open>ping\<close>, one environment for each pass.  The loop has no bound of its
  own: when the environments run out and the flag is not set the result is \<open>None\<close>.
\<close>

fun ping :: "ping_env list \<Rightarrow> subscriber \<Rightarrow> (outcome \<times> subscriber \<times> event list) option" where
  "ping [] s = (if stopped s then Some (Returned, s, []) else None)"
| "ping (env # envs) s =
     (if stopped s then Some (Returned, s, [])
      else
        (case ping_iteration env s of
           (Returned, s', tr) \<Rightarrow>
             (case ping envs s' of
                None \<Rightarrow> None
              | Some (out, s'', tr') \<Rightarrow> Some (out, s'', tr @ tr'))
         | (out, s', tr) \<Rightarrow> Some (out, s', tr)))"

fun is_restart :: "event \<Rightarrow> bool" where
  "is_restart ExecL = True"
| "is_restart _ = False"

fun is_publish :: "event \<Rightarrow> bool" where
  "is_publish (Publish t m) = True"
| "is_publish _ = False"

section \<open>Subscription Lifecycle Manager\<close>

text \<open>
  \<open>Thread.start()\<close> raises \<open>RuntimeError\<close> when the thread has been started before.
\<close>

definition thread_start :: "thread_state \<Rightarrow> exn + thread_state" where
  "thread_start t = (case t of NotStarted \<Rightarrow> Inr Started | Started \<Rightarrow> Inl RuntimeError)"

text \<open>
  \<open>confirm_subscription\<close>; the first argument is whether the remote confirmation
  raises.  \<open>ThreadStart\<close> is the effect of a start that succeeded.
\<close>

definition confirm_subscription ::
  "exn option \<Rightarrow> string option \<Rightarrow> json \<Rightarrow> subscriber \<Rightarrow> outcome \<times> subscriber \<times> event list" where
  "confirm_subscription confirm_result topic token s =
     (case confirm_result of
        Some e \<Rightarrow>
          (Raised (SystemExit 1), s,
           [SnsConfirmSubscription topic token,
            LogException ''Failed to confirm subscription. Please check in AWS.''])
      | None \<Rightarrow>
          (case thread_start (ping_thread s) of
             Inl e \<Rightarrow>
               (Raised (SystemExit 1), s,
                [SnsConfirmSubscription topic token, LogInfo ''Subscribed.'',
                 LogException ''Failed to confirm subscription. Please check in AWS.''])
           | Inr t \<Rightarrow>
               (Returned, s\<lparr>ping_thread := t\<rparr>,
                [SnsConfirmSubscription topic token, LogInfo ''Subscribed.'', ThreadStart])))"

fun is_thread_start :: "event \<Rightarrow> bool" where
  "is_thread_start ThreadStart = True"
| "is_thread_start _ = False"

text \<open>
  Confirmations delivered one after the other, each with the answer of the remote
  call, its topic header and its token.  An exception leaves the listener
  (\<open>SystemExit\<close> is not handled by the request handler), so delivery stops there.
\<close>

fun deliver_confirmations ::
  "(exn option \<times> string option \<times> json) list \<Rightarrow> subscriber \<Rightarrow> outcome \<times> subscriber \<times> event list" where
  "deliver_confirmations [] s = (Returned, s, [])"
| "deliver_confirmations ((r, topic, token) # cs) s =
     (case confirm_subscription r topic token s of
        (Returned, s', tr) \<Rightarrow>
          (case deliver_confirmations cs s' of (out, s'', tr') \<Rightarrow> (out, s'', tr @ tr'))
      | (out, s', tr) \<Rightarrow> (out, s', tr))"

text \<open>What the collaborators answer during \<open>unsubscribe\<close>.\<close>

record unsubscribe_env =
  u_delete_result :: "exn + bool"
  u_list_result :: "exn + subscription list"
  u_unsubscribe_result :: "exn option"

text \<open>The first part of \<open>unsubscribe\<close>: the port mapping, when the bridge owns one.\<close>

definition release_port_mapping :: "unsubscribe_env \<Rightarrow> subscriber \<Rightarrow> exn option \<times> event list" where
  "release_port_mapping env s =
     (if \<not> manual_port_forward s then
        (case u_delete_result env of
           Inl e \<Rightarrow> (Some e, [DeletePortMapping (server_port s)])
         | Inr result \<Rightarrow>
             if result then
               (None, [DeletePortMapping (server_port s), LogDebug ''Removed forward for port {}.''])
             else (Some RuntimeError, [DeletePortMapping (server_port s)]))
      else (None, []))"

text \<open>The \<open>for\<close> loop with its \<open>break\<close>: the identifier of the first match.\<close>

fun find_subscription :: "string \<Rightarrow> string \<Rightarrow> subscription list \<Rightarrow> string option" where
  "find_subscription topic url [] = None"
| "find_subscription topic url (sub # subs) =
     (if TopicArn sub = topic \<and> Endpoint sub = url then Some (SubscriptionArn sub)
      else find_subscription topic url subs)"

definition unsubscribe :: "unsubscribe_env \<Rightarrow> subscriber \<Rightarrow> outcome \<times> subscriber \<times> event list" where
  "unsubscribe env s =
     (case release_port_mapping env s of
        (Some e, tr) \<Rightarrow> (Raised e, s, tr)
      | (None, tr) \<Rightarrow>
          (case u_list_result env of
             Inl e \<Rightarrow> (Raised e, s, tr @ [ListSubscriptionsByTopic (topic_arn s)])
           | Inr subs \<Rightarrow>
               (case find_subscription (topic_arn s) (endpoint_url s) subs of
                  None \<Rightarrow>
                    (Raised (SystemExit 0), s, tr @ [ListSubscriptionsByTopic (topic_arn s)])
                | Some subscription_arn \<Rightarrow>
                    if take 12 subscription_arn = ''arn:aws:sns:'' then
                      (case u_unsubscribe_result env of
                         Some e \<Rightarrow>
                           (Raised e, s,
                            tr @ [ListSubscriptionsByTopic (topic_arn s),
                                  SnsUnsubscribe subscription_arn])
                       | None \<Rightarrow>
                           (Raised (SystemExit 0), s,
                            tr @ [ListSubscriptionsByTopic (topic_arn s),
                                  SnsUnsubscribe subscription_arn]))
                    else
                      (Raised (SystemExit 0), s,
                       tr @ [ListSubscriptionsByTopic (topic_arn s)]))))"

fun is_sns_unsubscribe :: "event \<Rightarrow> bool" where
  "is_sns_unsubscribe (SnsUnsubscribe a) = True"
| "is_sns_unsubscribe _ = False"

fun is_list_subscriptions :: "event \<Rightarrow> bool" where
  "is_list_subscriptions (ListSubscriptionsByTopic t) = True"
| "is_list_subscriptions _ = False"

text \<open>\<open>Thread.join\<close> raises \<open>RuntimeError\<close> on a thread that was never started.\<close>

definition thread_join :: "thread_state \<Rightarrow> exn option" where
  "thread_join t = (case t of NotStarted \<Rightarrow> Some RuntimeError | Started \<Rightarrow> None)"

text \<open>
  \<open>shutdown\<close>.  The statements after \<open>self.unsubscribe()\<close> run when that call returns.
\<close>

definition shutdown :: "unsubscribe_env \<Rightarrow> subscriber \<Rightarrow> outcome \<times> subscriber \<times> event list" where
  "shutdown env s =
     (if stopped s then (Returned, s, [])
      else
        (case unsubscribe env (s\<lparr>stopped := True\<rparr>) of
           (Returned, s', tr) \<Rightarrow>
             (case thread_join (ping_thread s') of
                Some e \<Rightarrow>
                  (Raised e, s', [LogInfo ''Shutting down HTTP listener''] @ tr @ [ServerShutdown])
              | None \<Rightarrow>
                  (Returned, s',
                   [LogInfo ''Shutting down HTTP listener''] @ tr @ [ServerShutdown, ThreadJoin 5]))
         | (out, s', tr) \<Rightarrow> (out, s', [LogInfo ''Shutting down HTTP listener''] @ tr)))"

fun is_server_shutdown :: "event \<Rightarrow> bool" where
  "is_server_shutdown ServerShutdown = True"
| "is_server_shutdown _ = False"

fun is_thread_join :: "event \<Rightarrow> bool" where
  "is_thread_join (ThreadJoin n) = True"
| "is_thread_join _ = False"

text \<open>
  Shutdown signals delivered one after the other: each is its own invocation of
  the handler, on the instance the previous one left.
\<close>

fun shutdown_signals :: "unsubscribe_env list \<Rightarrow> subscriber \<Rightarrow> subscriber \<times> event list" where
  "shutdown_signals [] s = (s, [])"
| "shutdown_signals (env # envs) s =
     (case shutdown env s of
        (out, s', tr) \<Rightarrow>
          (case shutdown_signals envs s' of (s'', tr') \<Rightarrow> (s'', tr @ tr')))"

section \<open>Webhook Listener\<close>

text \<open>
  The header \<open>Content-Length\<close> as \<open>int(self.headers['Content-Length'])\<close> sees it:
  absent (\<open>int(None)\<close> raises \<open>TypeError\<close>), not the text of an integer
  (\<open>ValueError\<close>), or an integer.
\<close>

datatype content_length = Missing | NotAnInteger | Length int

text \<open>
  A request: the two headers the handler reads, and the bytes that
  \<open>self.rfile.read\<close> delivers.
\<close>

record request =
  r_content_length :: content_length
  r_topic_arn :: "string option"
  r_raw_data :: string

text \<open>
  \<open>json.loads\<close> on a value: the parser of the \<open>json\<close> library is a parameter
  (\<open>loads\<close>, from the text to the document or the error it raises); anything that is
  not text raises \<open>TypeError\<close>.
\<close>

definition json_loads :: "(string \<Rightarrow> exn + json) \<Rightarrow> json \<Rightarrow> exn + json" where
  "json_loads loads v = (case v of JStr text \<Rightarrow> loads text | _ \<Rightarrow> Inl TypeError)"

text \<open>The three statements that open \<open>do_POST\<close>.\<close>

definition response_200 :: "event list" where
  "response_200 = [SendResponse 200, SendHeader ''content-type'' ''text/html'', EndHeaders]"

text \<open>
  \<open>do_POST\<close>.  \<open>confirm_result\<close> is the answer of the remote confirmation and \<open>now\<close>
  the clock, for the handler the request reaches.
\<close>

definition do_POST ::
  "(string \<Rightarrow> exn + json) \<Rightarrow> exn option \<Rightarrow> time \<Rightarrow> request \<Rightarrow> subscriber
     \<Rightarrow> outcome \<times> subscriber \<times> event list" where
  "do_POST loads confirm_result now req s =
     (case r_content_length req of
        Missing \<Rightarrow> (Raised TypeError, s, response_200)
      | NotAnInteger \<Rightarrow> (Raised ValueError, s, response_200)
      | Length n \<Rightarrow>
          (case loads (r_raw_data req) of
             Inl e \<Rightarrow> (Raised e, s, response_200 @ [ReadBody])
           | Inr data \<Rightarrow>
               (case getitem data ''Type'' of
                  Inl e \<Rightarrow> (Raised e, s, response_200 @ [ReadBody])
                | Inr msg_type \<Rightarrow>
                    if msg_type = JStr ''SubscriptionConfirmation'' then
                      (case getitem data ''Token'' of
                         Inl e \<Rightarrow>
                           (Raised e, s,
                            response_200
                              @ [ReadBody, LogInfo ''Received subscription confirmation...''])
                       | Inr token \<Rightarrow>
                           (case confirm_subscription confirm_result (r_topic_arn req) token s of
                              (out, s', tr) \<Rightarrow>
                                (out, s',
                                 response_200
                                   @ [ReadBody, LogInfo ''Received subscription confirmation...'']
                                   @ tr)))
                    else if msg_type = JStr ''Notification'' then
                      (case getitem data ''Message'' of
                         Inl e \<Rightarrow> (Raised e, s, response_200 @ [ReadBody])
                       | Inr message \<Rightarrow>
                           if truthy message then
                             (case json_loads loads message of
                                Inl e \<Rightarrow>
                                  (Raised e, s,
                                   response_200 @ [ReadBody, LogInfo ''Received message:''])
                              | Inr notification \<Rightarrow>
                                  (case dispatch_notification now notification s of
                                     (out, s', tr) \<Rightarrow>
                                       (out, s',
                                        response_200
                                          @ [ReadBody, LogInfo ''Received message:'',
                                             LogInfoJson notification]
                                          @ tr)))
                           else (Returned, s, response_200 @ [ReadBody]))
                    else (Returned, s, response_200 @ [ReadBody]))))"

text \<open>The events that write to the connection.\<close>

fun is_response :: "event \<Rightarrow> bool" where
  "is_response (SendResponse c) = True"
| "is_response (SendHeader k v) = True"
| "is_response EndHeaders = True"
| "is_response _ = False"

section \<open>Concrete instances\<close>

text \<open>
  A bridge that owns its port mapping, with one registered skill, \<open>lights\<close>, whose
  handler raises; the answers of the collaborators for one heartbeat pass, 2000 seconds
  after time 0; and for one \<open>unsubscribe\<close>, where the topic has one subscription, of
  another endpoint.
\<close>

definition example_subscriber :: subscriber where
  "example_subscriber =
     \<lparr>last_ping_sent = None, last_ping_received = None, ping_thread = NotStarted,
      stopped = False, manual_port_forward = False,
      skills = [''lights'' \<mapsto> (\<lambda>room cmd d. Some (SystemExit 1))],
      topic_arn = ''arn:aws:sns:us-east-1:1:alexa'', server_port = 8080,
      endpoint_url = ''http://203.0.113.7:8080''\<rparr>"

definition example_ping_env :: ping_env where
  "example_ping_env =
     \<lparr>p_now_gate = 2000000000, p_client_result = None, p_list_result = Inr [],
      p_now_check = 2000000001, p_execl_result = None, p_publish_result = None,
      p_now_sent = 2000000002\<rparr>"

definition example_unsubscribe_env :: unsubscribe_env where
  "example_unsubscribe_env =
     \<lparr>u_delete_result = Inr True,
      u_list_result = Inr [\<lparr>SubscriptionArn = ''arn:aws:sns:us-east-1:1:alexa:77'',
                             Endpoint = ''http://198.51.100.9:9000'',
                             TopicArn = ''arn:aws:sns:us-east-1:1:alexa''\<rparr>],
      u_unsubscribe_result = None\<rparr>"

text \<open>
  A parser known on three texts: the body of a confirmation, the body of a
  notification, and the message the notification carries; every other text is
  malformed.
\<close>

definition example_loads :: "string \<Rightarrow> exn + json" where
  "example_loads text =
     (if text = ''confirmation-body'' then
        Inr (JObj [(''Type'', JStr ''SubscriptionConfirmation''), (''Token'', JStr ''token-1'')])
      else if text = ''notification-body'' then
        Inr (JObj [(''Type'', JStr ''Notification''), (''Message'', JStr ''ping-message'')])
      else if text = ''ping-message'' then
        Inr (JObj [(''command'', JStr ''ping'')])
      else Inl JSONDecodeError)"


section \<open>Heartbeat Supervisor: when the cycle restarts\<close>

lemma ping_cycle_overdue:
  assumes "p_client_result env = None" and "p_list_result env = Inr subs"
    and "ack_overdue env s"
  shows "ping_cycle env s =
           ((case p_execl_result env of None \<Rightarrow> ProcessReplaced | Some e \<Rightarrow> Raised e), s,
            [SnsClientCreate, ListSubscriptionsByTopic (topic_arn s),
             (if length subs = 0 then LogError ''No clients are subscribed.''
              else LogInfo ''%i clients are subscribed.''),
             LogError ''No ping received for {PING_SECS * 2} seconds. Restarting process...'',
             ExecL])"
  using assms by (simp add: ping_cycle_def restart_def split: option.splits)

lemma ping_cycle_not_overdue:
  assumes "p_client_result env = None" and "p_list_result env = Inr subs"
    and "\<not> ack_overdue env s" and "p_publish_result env = None"
  shows "ping_cycle env s =
           (Returned, s\<lparr>last_ping_sent := Some (p_now_sent env)\<rparr>,
            [SnsClientCreate, ListSubscriptionsByTopic (topic_arn s),
             (if length subs = 0 then LogError ''No clients are subscribed.''
              else LogInfo ''%i clients are subscribed.''),
             LogInfo ''Sending ping...'',
             Publish (topic_arn s) (JObj [(''command'', JStr ''ping'')])])"
  using assms by (simp add: ping_cycle_def send_ping_def)

text \<open>
  C1, as the code has it.  In a pass of the heartbeat loop where a ping is due and the
  subscriptions are listed, the restart is decided by \<open>last_ping_received\<close> alone:
  when an acknowledgement has been received and more than 1200 seconds (twice
  \<open>PING_SECS\<close>) have passed since, the pass logs the condition and calls \<open>restart\<close>
  (the process image is replaced, or \<open>os.execl\<close> raises), publishes nothing and leaves
  \<open>last_ping_sent\<close> as it was; when no acknowledgement has ever been received, or the
  last one is at most 1200 seconds old, and the publication succeeds, the pass
  publishes a ping and records the clock as \<open>last_ping_sent\<close>, without a restart.
  Whether \<open>last_ping_sent\<close> is set plays no part.
\<close>

theorem ping_restart_depends_on_last_received:
  assumes "ping_due env s"
    and "p_client_result env = None" and "p_list_result env = Inr subs"
  shows "(\<forall>r. last_ping_received s = Some r \<and> p_now_check env - r > 1200 * 1000000 \<longrightarrow>
            fst (ping_iteration env s) =
              (case p_execl_result env of None \<Rightarrow> ProcessReplaced | Some e \<Rightarrow> Raised e)
            \<and> fst (snd (ping_iteration env s)) = s
            \<and> list_ex is_restart (snd (snd (ping_iteration env s)))
            \<and> \<not> list_ex is_publish (snd (snd (ping_iteration env s))))
       \<and> ((last_ping_received s = None
            \<or> (\<exists>r. last_ping_received s = Some r \<and> p_now_check env - r \<le> 1200 * 1000000))
           \<and> p_publish_result env = None \<longrightarrow>
            fst (ping_iteration env s) = Returned
            \<and> fst (snd (ping_iteration env s)) = s\<lparr>last_ping_sent := Some (p_now_sent env)\<rparr>
            \<and> list_ex is_publish (snd (snd (ping_iteration env s)))
            \<and> \<not> list_ex is_restart (snd (snd (ping_iteration env s))))"
proof (intro conjI allI impI)
  fix r
  assume h: "last_ping_received s = Some r \<and> p_now_check env - r > 1200 * 1000000"
  then have ov: "ack_overdue env s"
    by (simp add: ack_overdue_def total_seconds_gt_def PING_SECS_def)
  have eq: "ping_iteration env s = ping_cycle env s"
    using assms(1) by (simp add: ping_iteration_def)
  note c = ping_cycle_overdue [OF assms(2) assms(3) ov]
  show "fst (ping_iteration env s) =
          (case p_execl_result env of None \<Rightarrow> ProcessReplaced | Some e \<Rightarrow> Raised e)"
    by (simp add: eq c)
  show "fst (snd (ping_iteration env s)) = s" by (simp add: eq c)
  show "list_ex is_restart (snd (snd (ping_iteration env s)))" by (simp add: eq c)
  show "\<not> list_ex is_publish (snd (snd (ping_iteration env s)))" by (simp add: eq c)
next
  assume h: "(last_ping_received s = None
            \<or> (\<exists>r. last_ping_received s = Some r \<and> p_now_check env - r \<le> 1200 * 1000000))
           \<and> p_publish_result env = None"
  then have ov: "\<not> ack_overdue env s"
    by (auto simp add: ack_overdue_def total_seconds_gt_def PING_SECS_def)
  have eq: "ping_iteration env s = ping_cycle env s"
    using assms(1) by (simp add: ping_iteration_def)
  from h have pub: "p_publish_result env = None" by simp
  note c = ping_cycle_not_overdue [OF assms(2) assms(3) ov pub]
  show "fst (ping_iteration env s) = Returned" by (simp add: eq c)
  show "fst (snd (ping_iteration env s)) = s\<lparr>last_ping_sent := Some (p_now_sent env)\<rparr>"
    by (simp add: eq c)
  show "list_ex is_publish (snd (snd (ping_iteration env s)))" by (simp add: eq c)
  show "\<not> list_ex is_restart (snd (snd (ping_iteration env s)))" by (simp add: eq c)
qed

theorem ping_restart_depends_on_last_received_witness:
  "ping_due example_ping_env (example_subscriber\<lparr>last_ping_received := Some 0\<rparr>)
   \<and> last_ping_sent (example_subscriber\<lparr>last_ping_received := Some 0\<rparr>) = None
   \<and> fst (ping_iteration example_ping_env (example_subscriber\<lparr>last_ping_received := Some 0\<rparr>))
       = ProcessReplaced
   \<and> list_ex is_restart
       (snd (snd (ping_iteration example_ping_env
          (example_subscriber\<lparr>last_ping_received := Some 0\<rparr>))))
   \<and> fst (ping_iteration example_ping_env
          (example_subscriber\<lparr>last_ping_received := Some 1000000000\<rparr>)) = Returned
   \<and> list_ex is_publish
       (snd (snd (ping_iteration example_ping_env
          (example_subscriber\<lparr>last_ping_received := Some 1000000000\<rparr>))))"
proof -
  have d0: "ping_due example_ping_env (example_subscriber\<lparr>last_ping_received := Some 0\<rparr>)"
    by (simp add: ping_due_def example_subscriber_def)
  have d1: "ping_due example_ping_env (example_subscriber\<lparr>last_ping_received := Some 1000000000\<rparr>)"
    by (simp add: ping_due_def example_subscriber_def)
  have c: "p_client_result example_ping_env = None" by (simp add: example_ping_env_def)
  have l: "p_list_result example_ping_env = Inr []" by (simp add: example_ping_env_def)
  show ?thesis
    using ping_restart_depends_on_last_received [OF d0 c l]
      ping_restart_depends_on_last_received [OF d1 c l] d0
    by (simp add: example_ping_env_def example_subscriber_def)
qed

text \<open>
  C1 as stated fails: a ping was sent at time 0, no acknowledgement has ever been
  received, 2000 seconds have passed, and the pass publishes a new ping instead of
  restarting.
\<close>

theorem ping_no_restart_without_ack_counterexample:
  "last_ping_sent (example_subscriber\<lparr>last_ping_sent := Some 0\<rparr>) = Some 0
   \<and> last_ping_received (example_subscriber\<lparr>last_ping_sent := Some 0\<rparr>) = None
   \<and> p_now_gate example_ping_env - 0 > 1200 * 1000000
   \<and> ping_iteration example_ping_env (example_subscriber\<lparr>last_ping_sent := Some 0\<rparr>) =
       (Returned, example_subscriber\<lparr>last_ping_sent := Some 2000000002\<rparr>,
        [SnsClientCreate, ListSubscriptionsByTopic ''arn:aws:sns:us-east-1:1:alexa'',
         LogError ''No clients are subscribed.'', LogInfo ''Sending ping...'',
         Publish ''arn:aws:sns:us-east-1:1:alexa'' (JObj [(''command'', JStr ''ping'')])])"
  by (simp add: example_subscriber_def example_ping_env_def ping_iteration_def ping_due_def
      ping_cycle_def ack_overdue_def send_ping_def total_seconds_gt_def PING_SECS_def)

section \<open>Subscription confirmation\<close>

lemma confirm_started:
  "ping_thread s = Started \<Longrightarrow>
     fst (confirm_subscription r topic token s) = Raised (SystemExit 1)
     \<and> fst (snd (confirm_subscription r topic token s)) = s
     \<and> \<not> list_ex is_thread_start (snd (snd (confirm_subscription r topic token s)))"
  by (simp add: confirm_subscription_def thread_start_def split: option.splits)

lemma confirm_not_started:
  "ping_thread s = NotStarted \<Longrightarrow>
     confirm_subscription None topic token s =
       (Returned, s\<lparr>ping_thread := Started\<rparr>,
        [SnsConfirmSubscription topic token, LogInfo ''Subscribed.'', ThreadStart])"
  by (simp add: confirm_subscription_def thread_start_def)

lemma confirm_remote_failure:
  "confirm_subscription (Some e) topic token s =
     (Raised (SystemExit 1), s,
      [SnsConfirmSubscription topic token,
       LogException ''Failed to confirm subscription. Please check in AWS.''])"
  by (simp add: confirm_subscription_def)

lemma deliver_started:
  "ping_thread s = Started \<Longrightarrow>
     filter is_thread_start (snd (snd (deliver_confirmations cs s))) = []"
proof (cases cs)
  case Nil
  then show ?thesis by simp
next
  case (Cons c cs')
  obtain r topic token where c: "c = (r, topic, token)" by (cases c)
  assume st: "ping_thread s = Started"
  show ?thesis
    using confirm_started [OF st, of r topic token]
    by (cases "confirm_subscription r topic token s")
       (auto simp add: Cons c list_ex_iff filter_empty_conv)
qed

lemma deliver_at_most_once:
  "length (filter is_thread_start (snd (snd (deliver_confirmations cs s)))) \<le> 1"
proof (cases "ping_thread s")
  case Started
  then show ?thesis by (simp add: deliver_started)
next
  case NotStarted
  show ?thesis
  proof (cases cs)
    case Nil
    then show ?thesis by simp
  next
    case (Cons c cs')
    obtain r topic token where c: "c = (r, topic, token)" by (cases c)
    show ?thesis
    proof (cases r)
      case (Some e)
      then show ?thesis by (simp add: Cons c confirm_remote_failure)
    next
      case None
      have "ping_thread (s\<lparr>ping_thread := Started\<rparr>) = Started" by simp
      from deliver_started [OF this, of cs']
      show ?thesis
        by (auto simp add: Cons c None confirm_not_started [OF NotStarted] split: prod.splits)
    qed
  qed
qed

text \<open>
  C2, as the code has it.  The instance keeps no subscription state; what a
  confirmation changes is the heartbeat thread.  Over every sequence of confirmations
  the thread is started at most once.  A confirmation whose remote call succeeds while
  the thread is not started starts it and returns.  A confirmation delivered once the
  thread is started, whatever the remote call answers, starts nothing, leaves the
  instance unchanged and ends in \<open>sys.exit(1)\<close>.
\<close>

theorem confirm_starts_thread_at_most_once:
  "length (filter is_thread_start (snd (snd (deliver_confirmations cs s)))) \<le> 1
   \<and> (ping_thread s = NotStarted \<longrightarrow>
        confirm_subscription None topic token s =
          (Returned, s\<lparr>ping_thread := Started\<rparr>,
           [SnsConfirmSubscription topic token, LogInfo ''Subscribed.'', ThreadStart]))
   \<and> (ping_thread s = Started \<longrightarrow>
        fst (confirm_subscription r topic token s) = Raised (SystemExit 1)
        \<and> fst (snd (confirm_subscription r topic token s)) = s
        \<and> \<not> list_ex is_thread_start (snd (snd (confirm_subscription r topic token s))))"
  using deliver_at_most_once confirm_not_started confirm_started by blast

theorem confirm_starts_thread_at_most_once_witness:
  "ping_thread example_subscriber = NotStarted
   \<and> ping_thread (example_subscriber\<lparr>ping_thread := Started\<rparr>) = Started
   \<and> length (filter is_thread_start (snd (snd (deliver_confirmations
        [(None, None, JStr ''t''), (None, None, JStr ''t''), (None, None, JStr ''t'')]
        example_subscriber)))) \<le> 1
   \<and> fst (confirm_subscription None None (JStr ''t'') example_subscriber) = Returned
   \<and> fst (confirm_subscription None None (JStr ''t'')
        (example_subscriber\<lparr>ping_thread := Started\<rparr>)) = Raised (SystemExit 1)"
proof -
  have a: "ping_thread example_subscriber = NotStarted"
    by (simp add: example_subscriber_def)
  have b: "ping_thread (example_subscriber\<lparr>ping_thread := Started\<rparr>) = Started"
    by simp
  show ?thesis
    using confirm_starts_thread_at_most_once
      [of "[(None, None, JStr ''t''), (None, None, JStr ''t''), (None, None, JStr ''t'')]"
          example_subscriber None "JStr ''t''" None]
      confirm_starts_thread_at_most_once
      [of "[]" "example_subscriber\<lparr>ping_thread := Started\<rparr>" None "JStr ''t''" None]
      a b
    by (simp del: deliver_confirmations.simps)
qed

text \<open>
  C2 as stated fails: the same confirmation delivered twice, the remote call
  succeeding both times, ends in \<open>sys.exit(1)\<close> at the second delivery.
\<close>

theorem duplicate_confirmation_exits_counterexample:
  "deliver_confirmations
     [(None, Some ''arn:aws:sns:us-east-1:1:alexa'', JStr ''token-1''),
      (None, Some ''arn:aws:sns:us-east-1:1:alexa'', JStr ''token-1'')]
     example_subscriber =
   (Raised (SystemExit 1), example_subscriber\<lparr>ping_thread := Started\<rparr>,
    [SnsConfirmSubscription (Some ''arn:aws:sns:us-east-1:1:alexa'') (JStr ''token-1''),
     LogInfo ''Subscribed.'', ThreadStart,
     SnsConfirmSubscription (Some ''arn:aws:sns:us-east-1:1:alexa'') (JStr ''token-1''),
     LogInfo ''Subscribed.'',
     LogException ''Failed to confirm subscription. Please check in AWS.''])"
  by (simp add: example_subscriber_def confirm_subscription_def thread_start_def)

section \<open>Unsubscribe and shutdown\<close>

text \<open>
  C3, as the code has it.  When the bridge owns its port mapping and the release
  fails, \<open>unsubscribe\<close> raises: \<open>RuntimeError\<close> when \<open>deleteportmapping\<close> returns a
  false result, the gateway's own exception when it raises.  Nothing follows the
  attempt: the subscriptions are not listed, none is removed, and \<open>sys.exit(0)\<close> is not
  reached.
\<close>

theorem unsubscribe_release_failure_raises:
  assumes "\<not> manual_port_forward s"
  shows "(u_delete_result env = Inr False \<longrightarrow>
            unsubscribe env s = (Raised RuntimeError, s, [DeletePortMapping (server_port s)]))
       \<and> (\<forall>e. u_delete_result env = Inl e \<longrightarrow>
            unsubscribe env s = (Raised e, s, [DeletePortMapping (server_port s)]))"
  using assms by (simp add: unsubscribe_def release_port_mapping_def)

theorem unsubscribe_release_failure_raises_witness:
  "\<not> manual_port_forward example_subscriber
   \<and> unsubscribe (example_unsubscribe_env\<lparr>u_delete_result := Inl (External ''upnp'')\<rparr>)
        example_subscriber =
       (Raised (External ''upnp''), example_subscriber, [DeletePortMapping 8080])"
  using unsubscribe_release_failure_raises
    [of example_subscriber "example_unsubscribe_env\<lparr>u_delete_result := Inl (External ''upnp'')\<rparr>"]
  by (simp add: example_subscriber_def)

text \<open>
  C3 as stated fails: the gateway answers that the mapping was not removed, and
  \<open>unsubscribe\<close> raises \<open>RuntimeError\<close> after that one call.
\<close>

theorem unsubscribe_release_failure_counterexample:
  "unsubscribe (example_unsubscribe_env\<lparr>u_delete_result := Inr False\<rparr>) example_subscriber =
     (Raised RuntimeError, example_subscriber, [DeletePortMapping 8080])"
  by (simp add: unsubscribe_def release_port_mapping_def example_subscriber_def
      example_unsubscribe_env_def)

lemma unsubscribe_never_returns: "fst (unsubscribe env s) \<noteq> Returned"
  by (simp add: unsubscribe_def split: prod.splits option.splits sum.splits)

lemma unsubscribe_trace_no_stop:
  "\<not> list_ex is_server_shutdown (snd (snd (unsubscribe env s)))
   \<and> \<not> list_ex is_thread_join (snd (snd (unsubscribe env s)))"
  by (simp add: unsubscribe_def release_port_mapping_def split: prod.splits option.splits sum.splits)

text \<open>
  C4.  The claim is that \<open>shutdown\<close> goes on to stop the acceptor and join the
  heartbeat thread.  In the code \<open>unsubscribe\<close> never returns (it ends in \<open>sys.exit(0)\<close> or
  raises before), so from every state that is not stopped \<open>shutdown\<close> ends the way
  \<open>unsubscribe\<close> does, and neither \<open>self.server.shutdown()\<close> nor
  \<open>self.ping_thread.join(5)\<close> is executed.
\<close>

theorem shutdown_never_stops_acceptor:
  "\<not> stopped s \<longrightarrow>
     fst (shutdown env s) = fst (unsubscribe env (s\<lparr>stopped := True\<rparr>))
     \<and> fst (shutdown env s) \<noteq> Returned
     \<and> \<not> list_ex is_server_shutdown (snd (snd (shutdown env s)))
     \<and> \<not> list_ex is_thread_join (snd (snd (shutdown env s)))"
proof
  assume ns: "\<not> stopped s"
  obtain out s' tr where u: "unsubscribe env (s\<lparr>stopped := True\<rparr>) = (out, s', tr)"
    by (cases "unsubscribe env (s\<lparr>stopped := True\<rparr>)")
  have nr: "out \<noteq> Returned" using unsubscribe_never_returns [of env "s\<lparr>stopped := True\<rparr>"] u by simp
  have tr: "\<not> list_ex is_server_shutdown tr \<and> \<not> list_ex is_thread_join tr"
    using unsubscribe_trace_no_stop [of env "s\<lparr>stopped := True\<rparr>"] u by simp
  have sh: "shutdown env s = (out, s', [LogInfo ''Shutting down HTTP listener''] @ tr)"
    using ns nr u by (cases out) (simp_all add: shutdown_def)
  show "fst (shutdown env s) = fst (unsubscribe env (s\<lparr>stopped := True\<rparr>))
     \<and> fst (shutdown env s) \<noteq> Returned
     \<and> \<not> list_ex is_server_shutdown (snd (snd (shutdown env s)))
     \<and> \<not> list_ex is_thread_join (snd (snd (shutdown env s)))"
    using sh nr tr u by simp
qed

theorem shutdown_never_stops_acceptor_witness:
  "\<not> stopped (example_subscriber\<lparr>ping_thread := Started\<rparr>)
   \<and> shutdown example_unsubscribe_env (example_subscriber\<lparr>ping_thread := Started\<rparr>) =
       (Raised (SystemExit 0), example_subscriber\<lparr>ping_thread := Started, stopped := True\<rparr>,
        [LogInfo ''Shutting down HTTP listener'', DeletePortMapping 8080,
         LogDebug ''Removed forward for port {}.'',
         ListSubscriptionsByTopic ''arn:aws:sns:us-east-1:1:alexa''])
   \<and> \<not> list_ex is_server_shutdown
         (snd (snd (shutdown example_unsubscribe_env (example_subscriber\<lparr>ping_thread := Started\<rparr>))))"
  using shutdown_never_stops_acceptor
    [of "example_subscriber\<lparr>ping_thread := Started\<rparr>" example_unsubscribe_env]
  by (simp add: example_subscriber_def example_unsubscribe_env_def shutdown_def unsubscribe_def
      release_port_mapping_def)

lemma find_subscription_None:
  "(find_subscription topic url subs = None) =
     (\<forall>sub \<in> set subs. \<not> (TopicArn sub = topic \<and> Endpoint sub = url))"
  by (induction subs) auto

text \<open>
  C5.  When the port mapping is released (or the port is forwarded by hand) and the
  subscriptions are listed: if none of them has both the topic and the callback
  address of the bridge, \<open>unsubscribe\<close> releases the mapping, lists the
  subscriptions, makes no remote unsubscribe call and ends in \<open>sys.exit(0)\<close>; and
  in general the remote unsubscribe call is made exactly when the first matching
  subscription has an identifier that starts with \<open>arn:aws:sns:\<close>.
\<close>

theorem unsubscribe_without_match_exits_0:
  assumes "manual_port_forward s \<or> u_delete_result env = Inr True"
    and "u_list_result env = Inr subs"
  shows "((\<forall>sub \<in> set subs. \<not> (TopicArn sub = topic_arn s \<and> Endpoint sub = endpoint_url s)) \<longrightarrow>
            unsubscribe env s =
              (Raised (SystemExit 0), s,
               (if manual_port_forward s then []
                else [DeletePortMapping (server_port s),
                      LogDebug ''Removed forward for port {}.''])
               @ [ListSubscriptionsByTopic (topic_arn s)]))
         \<and> list_ex is_sns_unsubscribe (snd (snd (unsubscribe env s))) =
             (\<exists>arn. find_subscription (topic_arn s) (endpoint_url s) subs = Some arn
                    \<and> take 12 arn = ''arn:aws:sns:'')"
proof (intro conjI impI)
  assume "\<forall>sub \<in> set subs. \<not> (TopicArn sub = topic_arn s \<and> Endpoint sub = endpoint_url s)"
  then have f: "find_subscription (topic_arn s) (endpoint_url s) subs = None"
    by (simp add: find_subscription_None)
  show "unsubscribe env s =
          (Raised (SystemExit 0), s,
           (if manual_port_forward s then []
            else [DeletePortMapping (server_port s), LogDebug ''Removed forward for port {}.''])
           @ [ListSubscriptionsByTopic (topic_arn s)])"
    using assms f by (auto simp add: unsubscribe_def release_port_mapping_def)
next
  show "list_ex is_sns_unsubscribe (snd (snd (unsubscribe env s))) =
          (\<exists>arn. find_subscription (topic_arn s) (endpoint_url s) subs = Some arn
                 \<and> take 12 arn = ''arn:aws:sns:'')"
    using assms
    by (auto simp add: unsubscribe_def release_port_mapping_def split: option.splits)
qed

theorem unsubscribe_without_match_exits_0_witness:
  "(manual_port_forward example_subscriber \<or> u_delete_result example_unsubscribe_env = Inr True)
   \<and> unsubscribe example_unsubscribe_env example_subscriber =
       (Raised (SystemExit 0), example_subscriber,
        [DeletePortMapping 8080, LogDebug ''Removed forward for port {}.'',
         ListSubscriptionsByTopic ''arn:aws:sns:us-east-1:1:alexa''])
   \<and> \<not> list_ex is_sns_unsubscribe
         (snd (snd (unsubscribe example_unsubscribe_env example_subscriber)))"
proof -
  have a: "manual_port_forward example_subscriber
           \<or> u_delete_result example_unsubscribe_env = Inr True"
    by (simp add: example_unsubscribe_env_def)
  have b: "u_list_result example_unsubscribe_env =
             Inr [\<lparr>SubscriptionArn = ''arn:aws:sns:us-east-1:1:alexa:77'',
                   Endpoint = ''http://198.51.100.9:9000'',
                   TopicArn = ''arn:aws:sns:us-east-1:1:alexa''\<rparr>]"
    by (simp add: example_unsubscribe_env_def)
  have c: "\<forall>sub \<in> set [\<lparr>SubscriptionArn = ''arn:aws:sns:us-east-1:1:alexa:77'',
                           Endpoint = ''http://198.51.100.9:9000'',
                           TopicArn = ''arn:aws:sns:us-east-1:1:alexa''\<rparr>].
             \<not> (TopicArn sub = topic_arn example_subscriber
                \<and> Endpoint sub = endpoint_url example_subscriber)"
    by (simp add: example_subscriber_def)
  have d: "find_subscription (topic_arn example_subscriber) (endpoint_url example_subscriber)
             [\<lparr>SubscriptionArn = ''arn:aws:sns:us-east-1:1:alexa:77'',
               Endpoint = ''http://198.51.100.9:9000'',
               TopicArn = ''arn:aws:sns:us-east-1:1:alexa''\<rparr>] = None"
    by (simp add: example_subscriber_def)
  show ?thesis
    using unsubscribe_without_match_exits_0 [OF a b] a c d
    by (simp add: example_subscriber_def)
qed

lemma shutdown_stopped: "stopped s \<Longrightarrow> shutdown env s = (Returned, s, [])"
  by (simp add: shutdown_def)

lemma unsubscribe_state: "fst (snd (unsubscribe env s)) = s"
  by (simp add: unsubscribe_def split: prod.splits option.splits sum.splits)

lemma shutdown_first:
  assumes "\<not> stopped s"
  shows "snd (shutdown env s) =
           (s\<lparr>stopped := True\<rparr>,
            LogInfo ''Shutting down HTTP listener'' # snd (snd (unsubscribe env (s\<lparr>stopped := True\<rparr>))))"
proof -
  obtain out s' tr where u: "unsubscribe env (s\<lparr>stopped := True\<rparr>) = (out, s', tr)"
    by (cases "unsubscribe env (s\<lparr>stopped := True\<rparr>)")
  have nr: "out \<noteq> Returned" using unsubscribe_never_returns [of env "s\<lparr>stopped := True\<rparr>"] u by simp
  have st: "s' = s\<lparr>stopped := True\<rparr>" using unsubscribe_state [of env "s\<lparr>stopped := True\<rparr>"] u by simp
  show ?thesis using assms nr u st by (cases out) (simp_all add: shutdown_def)
qed

lemma shutdown_signals_stopped:
  "stopped s \<Longrightarrow> shutdown_signals envs s = (s, [])"
  by (induction envs) (simp_all add: shutdown_stopped)

lemma shutdown_keeps_stopped: "stopped s \<Longrightarrow> stopped (fst (snd (shutdown env s)))"
  by (simp add: shutdown_stopped)

lemma unsubscribe_keeps_stopped: "stopped (fst (snd (unsubscribe env s))) = stopped s"
  by (simp add: unsubscribe_state)

lemma dispatch_keeps_stopped:
  "stopped (fst (snd (dispatch_notification now n s))) = stopped s"
  by (simp add: dispatch_notification_def dispatch_body_def split: prod.splits sum.splits option.splits)

lemma confirm_keeps_stopped:
  "stopped (fst (snd (confirm_subscription r topic token s))) = stopped s"
  by (simp add: confirm_subscription_def split: option.splits sum.splits)

lemma ping_iteration_keeps_stopped:
  "stopped (fst (snd (ping_iteration env s))) = stopped s"
  by (simp add: ping_iteration_def ping_cycle_def send_ping_def restart_def Let_def
      split: option.splits sum.splits prod.splits outcome.splits)

lemma do_POST_keeps_stopped:
  "stopped (fst (snd (do_POST loads r now req s))) = stopped s"
proof -
  have c: "\<And>topic token out s' tr. confirm_subscription r topic token s = (out, s', tr) \<Longrightarrow> stopped s' = stopped s"
    using confirm_keeps_stopped by (metis fst_conv snd_conv)
  have d: "\<And>n out s' tr. dispatch_notification now n s = (out, s', tr) \<Longrightarrow> stopped s' = stopped s"
    using dispatch_keeps_stopped by (metis fst_conv snd_conv)
  show ?thesis
    by (auto simp add: do_POST_def split: content_length.splits sum.splits prod.splits dest: c d)
qed

text \<open>
  C9.  From a state that is not stopped, \<open>shutdown\<close> sets the flag and runs the
  shutdown work (the log line, then \<open>unsubscribe\<close> on the stopped instance), and any
  number of further invocations add nothing to it; from a stopped state \<open>shutdown\<close>
  returns at once, with no effect and the instance unchanged.  After any sequence of
  at least one invocation the flag is set, and no other method changes it:
  \<open>unsubscribe\<close>, \<open>confirm_subscription\<close>, \<open>dispatch_notification\<close>, a pass of the
  heartbeat loop and \<open>do_POST\<close> leave it as it is.
\<close>

theorem stop_flag_set_once:
  "(\<not> stopped s \<longrightarrow>
      snd (shutdown env s) =
        (s\<lparr>stopped := True\<rparr>,
         LogInfo ''Shutting down HTTP listener''
           # snd (snd (unsubscribe env (s\<lparr>stopped := True\<rparr>))))
      \<and> shutdown_signals (env # envs) s = snd (shutdown env s))
   \<and> (stopped s \<longrightarrow>
        shutdown env s = (Returned, s, []) \<and> shutdown_signals envs s = (s, []))
   \<and> stopped (fst (shutdown_signals (env # envs) s))
   \<and> stopped (fst (snd (unsubscribe env s))) = stopped s
   \<and> stopped (fst (snd (confirm_subscription r topic token s))) = stopped s
   \<and> stopped (fst (snd (dispatch_notification now n s))) = stopped s
   \<and> stopped (fst (snd (ping_iteration penv s))) = stopped s
   \<and> stopped (fst (snd (do_POST loads r now req s))) = stopped s"
proof -
  have first: "\<not> stopped s \<Longrightarrow> shutdown_signals (env # envs) s = snd (shutdown env s)"
  proof -
    assume ns: "\<not> stopped s"
    have "stopped (fst (snd (shutdown env s)))" using shutdown_first [OF ns, of env] by simp
    then have "shutdown_signals envs (fst (snd (shutdown env s))) = (fst (snd (shutdown env s)), [])"
      by (rule shutdown_signals_stopped)
    then show ?thesis by (cases "shutdown env s") simp
  qed
  have fin: "stopped (fst (shutdown_signals (env # envs) s))"
  proof (cases "stopped s")
    case True
    then show ?thesis by (simp only: shutdown_signals_stopped [OF True] fst_conv)
  next
    case False
    then show ?thesis by (simp only: first [OF False] shutdown_first [OF False] fst_conv) simp
  qed
  show ?thesis
  proof (intro conjI impI)
    assume ns: "\<not> stopped s"
    show "snd (shutdown env s) =
        (s\<lparr>stopped := True\<rparr>,
         LogInfo ''Shutting down HTTP listener''
           # snd (snd (unsubscribe env (s\<lparr>stopped := True\<rparr>))))"
      by (rule shutdown_first [OF ns])
    show "shutdown_signals (env # envs) s = snd (shutdown env s)"
      by (rule first [OF ns])
  next
    assume st: "stopped s"
    show "shutdown env s = (Returned, s, [])" by (rule shutdown_stopped [OF st])
    show "shutdown_signals envs s = (s, [])" by (rule shutdown_signals_stopped [OF st])
  next
    show "stopped (fst (shutdown_signals (env # envs) s))" by (rule fin)
    show "stopped (fst (snd (unsubscribe env s))) = stopped s"
      by (rule unsubscribe_keeps_stopped)
    show "stopped (fst (snd (confirm_subscription r topic token s))) = stopped s"
      by (rule confirm_keeps_stopped)
    show "stopped (fst (snd (dispatch_notification now n s))) = stopped s"
      by (rule dispatch_keeps_stopped)
    show "stopped (fst (snd (ping_iteration penv s))) = stopped s"
      by (rule ping_iteration_keeps_stopped)
    show "stopped (fst (snd (do_POST loads r now req s))) = stopped s"
      by (rule do_POST_keeps_stopped)
  qed
qed

theorem stop_flag_set_once_witness:
  "\<not> stopped example_subscriber
   \<and> shutdown_signals [example_unsubscribe_env, example_unsubscribe_env, example_unsubscribe_env]
        example_subscriber =
       (example_subscriber\<lparr>stopped := True\<rparr>,
        [LogInfo ''Shutting down HTTP listener'', DeletePortMapping 8080,
         LogDebug ''Removed forward for port {}.'',
         ListSubscriptionsByTopic ''arn:aws:sns:us-east-1:1:alexa''])
   \<and> shutdown example_unsubscribe_env (example_subscriber\<lparr>stopped := True\<rparr>) =
       (Returned, example_subscriber\<lparr>stopped := True\<rparr>, [])"
proof -
  have a: "\<not> stopped example_subscriber" by (simp add: example_subscriber_def)
  have b: "stopped (example_subscriber\<lparr>stopped := True\<rparr>)" by simp
  have u: "snd (snd (unsubscribe example_unsubscribe_env (example_subscriber\<lparr>stopped := True\<rparr>))) =
             [DeletePortMapping 8080, LogDebug ''Removed forward for port {}.'',
              ListSubscriptionsByTopic ''arn:aws:sns:us-east-1:1:alexa'']"
    by (simp add: unsubscribe_def release_port_mapping_def example_subscriber_def
        example_unsubscribe_env_def)
  show ?thesis
    using stop_flag_set_once
      [of example_subscriber example_unsubscribe_env
          "[example_unsubscribe_env, example_unsubscribe_env]"]
      stop_flag_set_once
      [of "example_subscriber\<lparr>stopped := True\<rparr>" example_unsubscribe_env "[]"]
      a b u
    by (simp del: shutdown_signals.simps)
qed

section \<open>Notification Dispatcher: heartbeat acknowledgements and failures\<close>

text \<open>
  C6.  For every notification whose \<open>command\<close> is \<open>ping\<close>, \<open>dispatch_notification\<close>
  records the clock as \<open>last_ping_received\<close> and returns; the registry is not looked up
  and no handler is invoked, whatever the registry holds.
\<close>

theorem dispatch_ping_records_ack:
  assumes "getitem notification ''command'' = Inr (JStr ''ping'')"
  shows "dispatch_notification now notification s =
           (Returned, s\<lparr>last_ping_received := Some now\<rparr>, [LogInfo ''Received ping.''])
         \<and> \<not> list_ex is_skills_get (snd (snd (dispatch_notification now notification s)))
         \<and> \<not> list_ex is_handle_command (snd (snd (dispatch_notification now notification s)))"
  using assms by (simp add: dispatch_notification_def dispatch_body_def)

theorem dispatch_ping_records_ack_witness:
  "getitem (JObj [(''handler_name'', JStr ''lights''), (''command'', JStr ''ping'')]) ''command''
     = Inr (JStr ''ping'')
   \<and> dispatch_notification 1700000000000000
        (JObj [(''handler_name'', JStr ''lights''), (''command'', JStr ''ping'')])
        example_subscriber
     = (Returned, example_subscriber\<lparr>last_ping_received := Some 1700000000000000\<rparr>,
        [LogInfo ''Received ping.''])"
  using dispatch_ping_records_ack
    [of "JObj [(''handler_name'', JStr ''lights''), (''command'', JStr ''ping'')]"
        1700000000000000 example_subscriber]
  by simp

text \<open>
  C7.  For every notification whose \<open>handler_name\<close> is not registered,
  \<open>dispatch_notification\<close> returns and invokes no handler; when the notification has a
  \<open>command\<close> other than \<open>ping\<close>, the registry is looked up, the failure is logged, and
  the instance is unchanged.
\<close>

theorem dispatch_unknown_handler:
  assumes "getitem notification ''handler_name'' = Inr (JStr h)"
    and "skills s h = None"
  shows "fst (dispatch_notification now notification s) = Returned
         \<and> \<not> list_ex is_handle_command (snd (snd (dispatch_notification now notification s)))
         \<and> (\<forall>c. getitem notification ''command'' = Inr c \<and> c \<noteq> JStr ''ping'' \<longrightarrow>
               dispatch_notification now notification s =
                 (Returned, s,
                  [SkillsGet (JStr h), LogException ''Unexpected error handling message'']))"
  using assms
  by (auto simp add: dispatch_notification_def dispatch_body_def split: sum.splits)

theorem dispatch_unknown_handler_witness:
  "getitem (JObj [(''command'', JStr ''turnOn''), (''handler_name'', JStr ''heating'')])
     ''handler_name'' = Inr (JStr ''heating'')
   \<and> skills example_subscriber ''heating'' = None
   \<and> dispatch_notification 0
        (JObj [(''command'', JStr ''turnOn''), (''handler_name'', JStr ''heating'')])
        example_subscriber =
       (Returned, example_subscriber,
        [SkillsGet (JStr ''heating''), LogException ''Unexpected error handling message''])"
proof -
  have h: "getitem (JObj [(''command'', JStr ''turnOn''), (''handler_name'', JStr ''heating'')])
     ''handler_name'' = Inr (JStr ''heating'')"
    by simp
  have k: "skills example_subscriber ''heating'' = None"
    by (simp add: example_subscriber_def)
  show ?thesis
    using dispatch_unknown_handler [OF h k, of 0] h k by simp
qed

text \<open>
  C10.  \<open>dispatch_notification\<close> returns for every JSON value, every registry and
  every behaviour of the handlers; whenever the body of its \<open>try\<close> raises (a missing
  key, a value that is not a dict, a missing skill, a handler that raises, even
  \<open>SystemExit\<close>), what the call did is what the body did followed by the log of the
  exception.
\<close>

theorem dispatch_notification_total:
  "fst (dispatch_notification now notification s) = Returned
   \<and> (\<forall>e. fst (dispatch_body now notification s) = Inl e \<longrightarrow>
         snd (snd (dispatch_notification now notification s)) =
           snd (snd (dispatch_body now notification s))
             @ [LogException ''Unexpected error handling message''])"
  by (auto simp add: dispatch_notification_def split: prod.splits sum.splits)

theorem dispatch_notification_total_witness:
  "fst (dispatch_body 0
          (JObj [(''command'', JStr ''turnOn''), (''handler_name'', JStr ''lights'')])
          example_subscriber) = Inl KeyError
   \<and> dispatch_notification 0
        (JObj [(''command'', JStr ''turnOn''), (''handler_name'', JStr ''lights'')])
        example_subscriber =
       (Returned, example_subscriber,
        [SkillsGet (JStr ''lights''), LogException ''Unexpected error handling message''])
   \<and> fst (dispatch_notification 0 (JArr [JInt 1]) example_subscriber) = Returned"
  using dispatch_notification_total
    [of 0 "JObj [(''command'', JStr ''turnOn''), (''handler_name'', JStr ''lights'')]"
        example_subscriber]
    dispatch_notification_total [of 0 "JArr [JInt 1]" example_subscriber]
  by (simp add: example_subscriber_def dispatch_notification_def dispatch_body_def)

section \<open>Webhook Listener: the acknowledgement\<close>

lemma confirm_no_response:
  "\<not> list_ex is_response (snd (snd (confirm_subscription r topic token s)))"
  by (simp add: confirm_subscription_def split: option.splits sum.splits)

lemma dispatch_no_response:
  "\<not> list_ex is_response (snd (snd (dispatch_notification now n s)))"
  by (simp add: dispatch_notification_def dispatch_body_def split: prod.splits sum.splits option.splits)

text \<open>
  A notification request whose body and message decode is handled to the end:
  whatever the dispatcher meets, \<open>do_POST\<close> returns.
\<close>

lemma do_POST_notification_returns:
  assumes "r_content_length req = Length n"
    and "loads (r_raw_data req) = Inr data"
    and "getitem data ''Type'' = Inr (JStr ''Notification'')"
    and "getitem data ''Message'' = Inr message"
    and "truthy message"
    and "json_loads loads message = Inr notification"
  shows "fst (do_POST loads r now req s) = Returned"
proof -
  obtain out s' tr where d: "dispatch_notification now notification s = (out, s', tr)"
    by (cases "dispatch_notification now notification s")
  have "out = Returned"
    using d by (auto simp add: dispatch_notification_def split: prod.splits sum.splits)
  then show ?thesis
    using assms d by (simp add: do_POST_def)
qed

text \<open>
  C8.  For every request, whatever the parser, the collaborators and the instance,
  the first three effects of \<open>do_POST\<close> are the status line 200, the header
  \<open>content-type: text/html\<close> and the end of the headers, before the body is read; nothing
  else is written to the connection afterwards, whether the handling returns, raises
  or exits.
\<close>

theorem do_POST_answers_200_first:
  "take 3 (snd (snd (do_POST loads r now req s))) =
     [SendResponse 200, SendHeader ''content-type'' ''text/html'', EndHeaders]
   \<and> \<not> list_ex is_response (drop 3 (snd (snd (do_POST loads r now req s))))"
proof -
  have c: "\<And>topic token out s' tr. confirm_subscription r topic token s = (out, s', tr) \<Longrightarrow> \<not> list_ex is_response tr"
    using confirm_no_response by (metis snd_conv)
  have d: "\<And>n out s' tr. dispatch_notification now n s = (out, s', tr) \<Longrightarrow> \<not> list_ex is_response tr"
    using dispatch_no_response by (metis snd_conv)
  show ?thesis
    by (auto simp add: do_POST_def response_200_def split: content_length.splits sum.splits prod.splits dest: c d)
qed

theorem do_POST_answers_200_first_witness:
  "do_POST example_loads None 0
     \<lparr>r_content_length = Length 8, r_topic_arn = None, r_raw_data = ''not json''\<rparr>
     example_subscriber =
     (Raised JSONDecodeError, example_subscriber,
      [SendResponse 200, SendHeader ''content-type'' ''text/html'', EndHeaders, ReadBody])
   \<and> take 3 (snd (snd (do_POST example_loads (Some (External ''sns'')) 0
        \<lparr>r_content_length = Length 17, r_topic_arn = Some ''arn:aws:sns:us-east-1:1:alexa'',
         r_raw_data = ''confirmation-body''\<rparr>
        example_subscriber))) =
       [SendResponse 200, SendHeader ''content-type'' ''text/html'', EndHeaders]
   \<and> fst (do_POST example_loads (Some (External ''sns'')) 0
        \<lparr>r_content_length = Length 17, r_topic_arn = Some ''arn:aws:sns:us-east-1:1:alexa'',
         r_raw_data = ''confirmation-body''\<rparr>
        example_subscriber) = Raised (SystemExit 1)"
  using do_POST_answers_200_first
    [of example_loads "Some (External ''sns'')" 0
        "\<lparr>r_content_length = Length 17, r_topic_arn = Some ''arn:aws:sns:us-east-1:1:alexa'',
          r_raw_data = ''confirmation-body''\<rparr>"
        example_subscriber]
  by (simp add: do_POST_def example_loads_def response_200_def confirm_subscription_def)

end
